theory Spec2Isabelle
  imports Complex_Main
begin

section \<open>JavaScript values used by the order pipeline\<close>

text \<open>
  Timestamps are the strings produced by \<^verbatim>\<open>new Date().toISOString()\<close>. Such a string is
  never empty (so it is always truthy under \<^verbatim>\<open>||\<close>) and, being of fixed width, its
  lexicographic order is the chronological one. It is represented by the instant it
  denotes, in milliseconds.
\<close>

type_synonym timestamp = nat

text \<open>
  A thrown value: a plain \<^verbatim>\<open>Error\<close> with its message, an error of the Cosmos client
  with its HTTP status code, or an error of the Stripe client.
\<close>

datatype error = Error string | CosmosError nat string | StripeError string

fun message :: "error \<Rightarrow> string" where
  "message (Error m) = m"
| "message (CosmosError code m) = m"
| "message (StripeError m) = m"

text \<open>A string-valued property that may be \<^verbatim>\<open>undefined\<close>: it is falsy when absent or empty.\<close>

fun falsy :: "string option \<Rightarrow> bool" where
  "falsy None = True"
| "falsy (Some s) = (s = [])"

text \<open>\<^verbatim>\<open>a || b\<close> on an optional string with a string default.\<close>

fun or_else :: "string option \<Rightarrow> string \<Rightarrow> string" where
  "or_else None d = d"
| "or_else (Some s) d = (if s = [] then d else s)"

text \<open>\<^verbatim>\<open>Array.prototype.join\<close> on strings.\<close>

fun join :: "string \<Rightarrow> string list \<Rightarrow> string" where
  "join sep [] = []"
| "join sep [x] = x"
| "join sep (x # y # ys) = x @ sep @ join sep (y # ys)"

section \<open>The order model (models/Order.js)\<close>

record address =
  street :: "string option"
  city :: "string option"
  postalCode :: "string option"
  country :: "string option"

text \<open>
  A cart item as the checkout reads it; an absent description is the empty string and
  absent images are the empty list.
\<close>

record item =
  name :: string
  description :: string
  images :: "string list"
  price :: rat
  quantity :: int

text \<open>
  An \<^verbatim>\<open>Order\<close> instance and the document \<^verbatim>\<open>toDocument\<close> writes have the same eleven
  fields. Only \<^verbatim>\<open>userId\<close> has no default in the constructor and may be undefined. The
  fields \<^verbatim>\<open>id\<close> and \<^verbatim>\<open>total\<close> are named \<open>order_id\<close> and \<open>total_amount\<close>, the short names
  being constants of the logic.
\<close>

record order =
  order_id :: string
  userId :: "string option"
  items :: "item list"
  address :: address
  status :: string
  total_amount :: rat
  stripeSessionId :: "string option"
  customerEmail :: string
  metadata :: "(string \<times> string) list"
  createdAt :: timestamp
  updatedAt :: timestamp

text \<open>The argument \<^verbatim>\<open>data\<close> of the constructor: every property may be absent.\<close>

record order_data =
  d_id :: "string option"
  d_userId :: "string option"
  d_items :: "item list option"
  d_address :: "address option"
  d_status :: "string option"
  d_total :: "rat option"
  d_stripeSessionId :: "string option"
  d_customerEmail :: "string option"
  d_metadata :: "(string \<times> string) list option"
  d_createdAt :: "timestamp option"
  d_updatedAt :: "timestamp option"

text \<open>
  What one request reads from outside the program: the clock and the random source
  behind \<^verbatim>\<open>generateId\<close>, the clock readings behind the constructor's two defaults and the
  handler's own \<^verbatim>\<open>new Date().toISOString()\<close>, and, for each call to the orders container,
  whether the transport fails (\<open>Some\<close> the error thrown) before the call takes effect.
\<close>

record env =
  date_now :: string
  random36 :: string
  iso_created :: timestamp
  iso_updated :: timestamp
  iso_now :: timestamp
  create_fault :: "error option"
  query_fault :: "error option"
  read_fault :: "error option"
  replace_fault :: "error option"

definition generateId :: "env \<Rightarrow> string" where
  "generateId e = ''order_'' @ date_now e @ ''_'' @ random36 e"

definition empty_address :: address where
  "empty_address = \<lparr>street = None, city = None, postalCode = None, country = None\<rparr>"

definition new_Order :: "env \<Rightarrow> order_data \<Rightarrow> order" where
  "new_Order e d =
     \<lparr>order_id = or_else (d_id d) (generateId e),
      userId = d_userId d,
      items = (case d_items d of None \<Rightarrow> [] | Some xs \<Rightarrow> xs),
      address = (case d_address d of None \<Rightarrow> empty_address | Some a \<Rightarrow> a),
      status = or_else (d_status d) ''pending'',
      total_amount = (case d_total d of None \<Rightarrow> 0 | Some t \<Rightarrow> t),
      stripeSessionId = (if falsy (d_stripeSessionId d) then None else d_stripeSessionId d),
      customerEmail = or_else (d_customerEmail d) [],
      metadata = (case d_metadata d of None \<Rightarrow> [] | Some m \<Rightarrow> m),
      createdAt = (case d_createdAt d of None \<Rightarrow> iso_created e | Some t \<Rightarrow> t),
      updatedAt = (case d_updatedAt d of None \<Rightarrow> iso_updated e | Some t \<Rightarrow> t)\<rparr>"

definition validate :: "order \<Rightarrow> string list" where
  "validate ord =
     (if falsy (userId ord) then [''User ID is required''] else []) @
     (if items ord = [] then [''At least one item is required''] else []) @
     (if falsy (street (address ord)) \<or> falsy (city (address ord)) \<or> falsy (country (address ord))
      then [''Valid address is required''] else []) @
     (if customerEmail ord = [] then [''Customer email is required''] else [])"

definition toDocument :: "order \<Rightarrow> order" where
  "toDocument ord =
     \<lparr>order_id = order_id ord, userId = userId ord, items = items ord, address = address ord,
      status = status ord, total_amount = total_amount ord,
      stripeSessionId = stripeSessionId ord, customerEmail = customerEmail ord,
      metadata = metadata ord, createdAt = createdAt ord, updatedAt = updatedAt ord\<rparr>"

definition fromDocument :: "env \<Rightarrow> order \<Rightarrow> order" where
  "fromDocument e doc =
     new_Order e
       \<lparr>d_id = Some (order_id doc), d_userId = userId doc, d_items = Some (items doc),
        d_address = Some (address doc), d_status = Some (status doc),
        d_total = Some (total_amount doc), d_stripeSessionId = stripeSessionId doc,
        d_customerEmail = Some (customerEmail doc), d_metadata = Some (metadata doc),
        d_createdAt = Some (createdAt doc), d_updatedAt = Some (updatedAt doc)\<rparr>"

section \<open>The orders container\<close>

text \<open>
  The container is the one \<^verbatim>\<open>config/cosmos.js\<close> exports as \<^verbatim>\<open>containers.orders\<close>. That file
  only obtains the container handle from the database client and declares \<^verbatim>\<open>/userId\<close> as
  the partition key; the operations on the handle belong to the client library, whose
  code is not among the sources, and section 4.3 of the specification gives their
  contract. The container is represented by the list of its documents, with \<^verbatim>\<open>userId\<close> as
  the partition key. Every operation takes the fault of the request environment first: a
  call whose transport fails throws that error and leaves the container alone.
\<close>

type_synonym container = "order list"

text \<open>A document lies at an id and a partition key.\<close>

definition same_item :: "string \<Rightarrow> string option \<Rightarrow> order \<Rightarrow> bool" where
  "same_item i pk doc = (order_id doc = i \<and> userId doc = pk)"

text \<open>
  Modelled from the spec: \<^verbatim>\<open>containers.orders.items.create\<close>, the store's \<^verbatim>\<open>create\<close>, which
  fails with a conflict if the id already exists and otherwise adds the document and
  returns it.
\<close>

definition items_create :: "error option \<Rightarrow> container \<Rightarrow> order \<Rightarrow> error + order \<times> container" where
  "items_create fault c doc =
     (case fault of
        Some err \<Rightarrow> Inl err
      | None \<Rightarrow>
          if list_ex (\<lambda>x. order_id x = order_id doc) c
          then Inl (CosmosError 409 ''Conflict'')
          else Inr (doc, c @ [doc]))"

text \<open>
  Modelled from the spec: \<^verbatim>\<open>containers.orders.item(id, partitionKey).read()\<close>, the store's
  \<^verbatim>\<open>getByOwnerAndId\<close>, a point lookup that yields the document or nothing.
\<close>

definition item_read :: "error option \<Rightarrow> container \<Rightarrow> string \<Rightarrow> string option \<Rightarrow> error + order option" where
  "item_read fault c i pk =
     (case fault of Some err \<Rightarrow> Inl err | None \<Rightarrow> Inr (find (same_item i pk) c))"

fun replace_first :: "(order \<Rightarrow> bool) \<Rightarrow> order \<Rightarrow> container \<Rightarrow> container" where
  "replace_first p doc [] = []"
| "replace_first p doc (x # xs) = (if p x then doc # xs else x # replace_first p doc xs)"

text \<open>
  Modelled from the spec: \<^verbatim>\<open>containers.orders.item(id, partitionKey).replace(doc)\<close>, the
  store's \<^verbatim>\<open>replace\<close>, which fails with not-found if no document lies at that id and
  partition key and otherwise overwrites it in place (last write wins). A body that
  names another id or partition key than the one addressed is refused.
\<close>

definition item_replace ::
  "error option \<Rightarrow> container \<Rightarrow> string \<Rightarrow> string option \<Rightarrow> order \<Rightarrow> error + container" where
  "item_replace fault c i pk doc =
     (case fault of
        Some err \<Rightarrow> Inl err
      | None \<Rightarrow>
          if \<not> same_item i pk doc then Inl (CosmosError 400 ''Bad Request'')
          else if \<not> list_ex (same_item i pk) c then Inl (CosmosError 404 ''Not Found'')
          else Inr (replace_first (same_item i pk) doc c))"

text \<open>
  Modelled from the spec: the query \<^verbatim>\<open>SELECT * FROM c WHERE c.id = @id\<close> fetched in full,
  the store's \<^verbatim>\<open>getById\<close>: a scan across the partitions, here in the container's order.
\<close>

definition query_by_id :: "error option \<Rightarrow> container \<Rightarrow> string \<Rightarrow> error + order list" where
  "query_by_id fault c i =
     (case fault of Some err \<Rightarrow> Inl err | None \<Rightarrow> Inr (filter (\<lambda>doc. order_id doc = i) c))"

section \<open>Responses\<close>

text \<open>
  A handler ends by sending a response (status code and body) or by handing an error to
  \<^verbatim>\<open>next\<close>, the request boundary. Console output is not part of the model.
\<close>

datatype body =
    Failure string
  | ErrorOnly string
  | CheckoutUrl string
  | Received
  | Text string
  | OrderJson order
  | OrdersJson "order list" int int nat "nat option"

datatype outcome = Respond nat body | Next error

section \<open>The payment-provider callback (ShoppingController.handleStripeWebhook)\<close>

text \<open>
  The handler receives what \<^verbatim>\<open>stripe.webhooks.constructEvent\<close> made of the raw body and
  the signature header: the error it threw, or the event with its type and the
  \<^verbatim>\<open>client_reference_id\<close> of the session it carries. Inside the \<^verbatim>\<open>try\<close> block a failed
  lookup or replace is caught and logged, and so is an unknown order; whatever happened
  there, the last statement answers \<^verbatim>\<open>{received: true}\<close>.
\<close>

record stripe_event =
  event_type :: string
  client_reference_id :: "string option"

definition handleStripeWebhook :: "env \<Rightarrow> container \<Rightarrow> error + stripe_event \<Rightarrow> outcome \<times> container" where
  "handleStripeWebhook e c constructed =
     (case constructed of
        Inl err \<Rightarrow> (Respond 400 (Text (''Webhook Error: '' @ message err)), c)
      | Inr event \<Rightarrow>
          if event_type event = ''checkout.session.completed'' then
            (case client_reference_id event of
               None \<Rightarrow> (Respond 200 Received, c)
             | Some orderId \<Rightarrow>
                 if orderId = [] then (Respond 200 Received, c)
                 else
                   (case query_by_id (query_fault e) c orderId of
                      Inl err \<Rightarrow> (Respond 200 Received, c)
                    | Inr [] \<Rightarrow> (Respond 200 Received, c)
                    | Inr (orderDoc # rest) \<Rightarrow>
                        (case item_replace (replace_fault e) c orderId (userId orderDoc)
                                (orderDoc\<lparr>status := ''confirmed'', updatedAt := iso_now e\<rparr>) of
                           Inl err \<Rightarrow> (Respond 200 Received, c)
                         | Inr c' \<Rightarrow> (Respond 200 Received, c'))))
          else (Respond 200 Received, c))"

section \<open>The administrative status update (OrderController.updateOrderStatus)\<close>

definition validStatuses :: "string list" where
  "validStatuses =
     [''pending'', ''confirmed'', ''processing'', ''out_for_delivery'', ''delivered'', ''cancelled'']"

definition updateOrderStatus ::
  "env \<Rightarrow> container \<Rightarrow> string \<Rightarrow> string option \<Rightarrow> outcome \<times> container" where
  "updateOrderStatus e c orderId body_status =
     (case body_status of
        None \<Rightarrow> (Respond 400 (Failure ''Invalid status''), c)
      | Some new_status \<Rightarrow>
          if new_status \<notin> set validStatuses then (Respond 400 (Failure ''Invalid status''), c)
          else
            (case query_by_id (query_fault e) c orderId of
               Inl err \<Rightarrow> (Next err, c)
             | Inr [] \<Rightarrow> (Respond 404 (Failure ''Order not found''), c)
             | Inr (orderDoc # rest) \<Rightarrow>
                 (case item_replace (replace_fault e) c orderId (userId orderDoc)
                         (orderDoc\<lparr>status := new_status, updatedAt := iso_now e\<rparr>) of
                    Inl err \<Rightarrow> (Next err, c)
                  | Inr c' \<Rightarrow>
                      (Respond 200
                         (OrderJson (fromDocument e (orderDoc\<lparr>status := new_status, updatedAt := iso_now e\<rparr>))),
                       c'))))"

section \<open>Order creation (UserService.createOrder)\<close>

text \<open>
  The service returns the order or throws; the second component is the container
  afterwards. A validation failure throws before the container is touched.
\<close>

definition createOrder :: "env \<Rightarrow> container \<Rightarrow> order_data \<Rightarrow> (error + order) \<times> container" where
  "createOrder e c orderData =
     (let ord = new_Order e orderData; validationErrors = validate ord in
      if validationErrors \<noteq> []
      then (Inl (Error (''Order validation failed: '' @ join '', '' validationErrors)), c)
      else
        (case items_create (create_fault e) c (toDocument ord) of
           Inl err \<Rightarrow> (Inl err, c)
         | Inr (resource, c') \<Rightarrow> (Inr (fromDocument e resource), c')))"

section \<open>Checkout (ShoppingController.createCheckoutSession)\<close>

record checkout_body =
  cartItems :: "item list option"
  body_customerEmail :: "string option"
  body_address :: "address option"
  body_total :: "rat option"
  body_metadata :: "(string \<times> string) list option"

record line_item =
  product_name :: string
  product_description :: string
  product_images :: "string list"
  unit_amount :: int
  line_quantity :: int

text \<open>
  The part of the session request that depends on the order: the line items, the
  customer's e-mail address and the correlation value. The URLs and the session's own
  metadata come from the process environment and the clock.
\<close>

record session_request =
  line_items :: "line_item list"
  customer_email :: "string option"
  session_reference :: string

record session =
  session_id :: string
  session_url :: string

text \<open>
  \<^verbatim>\<open>Math.round\<close>: the nearest integer, halves upwards. Prices are exact rationals here, so
  the product with 100 is exact, where the source rounds the product of two doubles.
\<close>

definition math_round :: "rat \<Rightarrow> int" where
  "math_round x = \<lfloor>x + 1 / 2\<rfloor>"

text \<open>
  A string that \<^verbatim>\<open>trim()\<close> empties: only tabs, line breaks and spaces. Of the white space
  \<^verbatim>\<open>trim()\<close> removes, only the ASCII characters are covered.
\<close>

definition blank :: "string \<Rightarrow> bool" where
  "blank s = list_all (\<lambda>ch. (of_char ch :: nat) \<in> {9, 10, 11, 12, 13, 32}) s"

definition to_line_item :: "item \<Rightarrow> line_item" where
  "to_line_item it =
     \<lparr>product_name = name it,
      product_description =
        (if description it \<noteq> [] \<and> \<not> blank (description it) then description it
         else ''No description provided''),
      product_images = images it,
      unit_amount = math_round (price it * 100),
      line_quantity = quantity it\<rparr>"

text \<open>The order data the handler hands to \<open>createOrder\<close>, and its request to the provider.\<close>

definition checkout_order_data :: "string \<Rightarrow> item list \<Rightarrow> address \<Rightarrow> checkout_body \<Rightarrow> order_data" where
  "checkout_order_data user_id cart addr b =
     \<lparr>d_id = None, d_userId = Some user_id, d_items = Some cart, d_address = Some addr,
      d_status = Some ''pending'', d_total = body_total b, d_stripeSessionId = None,
      d_customerEmail = body_customerEmail b, d_metadata = body_metadata b,
      d_createdAt = None, d_updatedAt = None\<rparr>"

definition session_request_for :: "item list \<Rightarrow> checkout_body \<Rightarrow> order \<Rightarrow> session_request" where
  "session_request_for cart b ord =
     \<lparr>line_items = map to_line_item cart,
      customer_email = body_customerEmail b,
      session_reference = order_id ord\<rparr>"

text \<open>
  \<open>sessions_create\<close> stands for \<^verbatim>\<open>stripe.checkout.sessions.create\<close>: the provider's answer
  to a request, a session or a thrown error. Every error caught by the handler's
  \<^verbatim>\<open>try\<close> block becomes the same 500 response.
\<close>

definition createCheckoutSession ::
  "(session_request \<Rightarrow> error + session) \<Rightarrow> env \<Rightarrow> container \<Rightarrow> string \<Rightarrow> checkout_body
     \<Rightarrow> outcome \<times> container" where
  "createCheckoutSession sessions_create e c user_id b =
     (case cartItems b of
        None \<Rightarrow> (Respond 400 (Failure ''Cart items are required''), c)
      | Some cart \<Rightarrow>
          if cart = [] then (Respond 400 (Failure ''Cart items are required''), c)
          else
            (case body_address b of
               None \<Rightarrow> (Respond 400 (Failure ''Address is required''), c)
             | Some addr \<Rightarrow>
                 (case createOrder e c (checkout_order_data user_id cart addr b) of
                    (Inl err, c1) \<Rightarrow> (Respond 500 (ErrorOnly ''Internal Server Error''), c1)
                  | (Inr ord, c1) \<Rightarrow>
                      (case sessions_create (session_request_for cart b ord) of
                         Inl err \<Rightarrow> (Respond 500 (ErrorOnly ''Internal Server Error''), c1)
                       | Inr sess \<Rightarrow>
                           (case item_replace (replace_fault e) c1 (order_id ord) (Some user_id)
                                   ((toDocument ord)\<lparr>stripeSessionId := Some (session_id sess),
                                                      updatedAt := iso_now e\<rparr>) of
                              Inl err \<Rightarrow> (Respond 500 (ErrorOnly ''Internal Server Error''), c1)
                            | Inr c2 \<Rightarrow> (Respond 200 (CheckoutUrl (session_url sess)), c2))))))"

section \<open>Owner-scoped fetch (ShoppingController.getOrderById)\<close>

definition getOrderById :: "env \<Rightarrow> container \<Rightarrow> string \<Rightarrow> string \<Rightarrow> outcome" where
  "getOrderById e c user_id orderId =
     (case item_read (read_fault e) c orderId (Some user_id) of
        Inl err \<Rightarrow> Next err
      | Inr None \<Rightarrow> Respond 404 (Failure ''Order not found'')
      | Inr (Some resource) \<Rightarrow> Respond 200 (OrderJson (fromDocument e resource)))"

section \<open>Listings (ShoppingController.getOrders, OrderController.getAllOrders)\<close>

text \<open>\<^verbatim>\<open>CONTAINS(text, search, true)\<close>: containment that ignores the case of ASCII letters.\<close>

definition to_lower :: "char \<Rightarrow> char" where
  "to_lower ch =
     (let n = (of_char ch :: nat) in if 65 \<le> n \<and> n \<le> 90 then char_of (n + 32) else ch)"

fun contains :: "string \<Rightarrow> string \<Rightarrow> bool" where
  "contains [] needle = (needle = [])"
| "contains (h # hs) needle = (take (length needle) (h # hs) = needle \<or> contains hs needle)"

definition contains_ci :: "string \<Rightarrow> string \<Rightarrow> bool" where
  "contains_ci hay needle = contains (map to_lower hay) (map to_lower needle)"

text \<open>A clause the handler appends to the query only when the parameter is truthy.\<close>

fun when_given :: "string option \<Rightarrow> (string \<Rightarrow> bool) \<Rightarrow> bool" where
  "when_given None p = True"
| "when_given (Some s) p = (s = [] \<or> p s)"

definition order_ref_contains :: "order \<Rightarrow> string \<Rightarrow> bool" where
  "order_ref_contains doc search =
     (case map_of (metadata doc) ''order_ref'' of
        None \<Rightarrow> False
      | Some r \<Rightarrow> contains_ci r search)"

definition user_filter :: "string \<Rightarrow> string option \<Rightarrow> string option \<Rightarrow> order \<Rightarrow> bool" where
  "user_filter user_id st search doc =
     (userId doc = Some user_id
      \<and> when_given st (\<lambda>s. status doc = s)
      \<and> when_given search (order_ref_contains doc))"

definition admin_filter :: "string option \<Rightarrow> string option \<Rightarrow> order \<Rightarrow> bool" where
  "admin_filter st search doc =
     (when_given st (\<lambda>s. status doc = s)
      \<and> when_given search (\<lambda>s. contains_ci (customerEmail doc) s \<or> order_ref_contains doc s))"

text \<open>
  Modelled from the spec: \<^verbatim>\<open>ORDER BY c.createdAt DESC\<close>, the store's ordering by creation
  time descending.
\<close>

definition order_by_createdAt_desc :: "order list \<Rightarrow> order list" where
  "order_by_createdAt_desc docs = rev (sort_key createdAt docs)"

text \<open>
  Modelled from the spec: the store's \<^verbatim>\<open>query\<close> with a filter and
  \<^verbatim>\<open>ORDER BY c.createdAt DESC OFFSET @offset LIMIT @limit\<close>, offset/limit pagination over
  the matching documents. A negative offset or limit is refused.
\<close>

definition query_page ::
  "error option \<Rightarrow> container \<Rightarrow> (order \<Rightarrow> bool) \<Rightarrow> int \<Rightarrow> int \<Rightarrow> error + order list" where
  "query_page fault c matches offset limit =
     (case fault of
        Some err \<Rightarrow> Inl err
      | None \<Rightarrow>
          if offset < 0 \<or> limit < 0 then Inl (CosmosError 400 ''Bad Request'')
          else Inr (take (nat limit) (drop (nat offset) (order_by_createdAt_desc (filter matches c)))))"

text \<open>
  \<^verbatim>\<open>Math.ceil(resources.length / limit)\<close>; the quotient by zero is not a finite number and
  is serialised as \<^verbatim>\<open>null\<close>.
\<close>

definition total_pages :: "nat \<Rightarrow> int \<Rightarrow> nat option" where
  "total_pages n limit = (if limit = 0 then None else Some (nat \<lceil>rat_of_nat n / rat_of_int limit\<rceil>))"

text \<open>
  The two listing handlers share their body up to the \<^verbatim>\<open>WHERE\<close> clause. \<open>page\<close> and
  \<open>limit\<close> are the query parameters after \<^verbatim>\<open>parseInt\<close>, \<open>None\<close> when the parameter is
  absent (the defaults are 1 and 20).
\<close>

definition listing ::
  "env \<Rightarrow> container \<Rightarrow> (order \<Rightarrow> bool) \<Rightarrow> int option \<Rightarrow> int option \<Rightarrow> outcome" where
  "listing e c matches page limit =
     (let p = (case page of None \<Rightarrow> 1 | Some v \<Rightarrow> v);
          l = (case limit of None \<Rightarrow> 20 | Some v \<Rightarrow> v);
          offset = (p - 1) * l in
      case query_page (query_fault e) c matches offset l of
        Inl err \<Rightarrow> Next err
      | Inr resources \<Rightarrow>
          Respond 200
            (OrdersJson (map (fromDocument e) resources) p l (length resources)
               (total_pages (length resources) l)))"

definition getOrders ::
  "env \<Rightarrow> container \<Rightarrow> string \<Rightarrow> int option \<Rightarrow> int option \<Rightarrow> string option \<Rightarrow> string option
     \<Rightarrow> outcome" where
  "getOrders e c user_id page limit st search =
     listing e c (user_filter user_id st search) page limit"

definition getAllOrders ::
  "env \<Rightarrow> container \<Rightarrow> int option \<Rightarrow> int option \<Rightarrow> string option \<Rightarrow> string option \<Rightarrow> outcome" where
  "getAllOrders e c page limit st search = listing e c (admin_filter st search) page limit"

section \<open>Relations between stored documents\<close>

text \<open>
  Two documents that agree on every field except, possibly, \<^verbatim>\<open>status\<close> and
  \<^verbatim>\<open>updatedAt\<close>; and two that agree on every field except, possibly, \<^verbatim>\<open>updatedAt\<close>.
\<close>

definition same_except_status_and_updatedAt :: "order \<Rightarrow> order \<Rightarrow> bool" where
  "same_except_status_and_updatedAt a b =
     (order_id b = order_id a \<and> userId b = userId a \<and> items b = items a
      \<and> address b = address a \<and> total_amount b = total_amount a
      \<and> stripeSessionId b = stripeSessionId a \<and> customerEmail b = customerEmail a
      \<and> metadata b = metadata a \<and> createdAt b = createdAt a)"

definition same_except_updatedAt :: "order \<Rightarrow> order \<Rightarrow> bool" where
  "same_except_updatedAt a b = (same_except_status_and_updatedAt a b \<and> status b = status a)"


text \<open>
  The constraints on the caller's data that \<open>createOrder\<close> enforces, each with the message
  that reports it: a user id, at least one item, an address with street, city and
  country, and a customer e-mail address.
\<close>

definition violated_constraints :: "order_data \<Rightarrow> string list" where
  "violated_constraints d =
     (if falsy (d_userId d) then [''User ID is required''] else []) @
     (if d_items d = None \<or> d_items d = Some [] then [''At least one item is required''] else []) @
     (if (case d_address d of
            None \<Rightarrow> True
          | Some a \<Rightarrow> falsy (street a) \<or> falsy (city a) \<or> falsy (country a))
      then [''Valid address is required''] else []) @
     (if falsy (d_customerEmail d) then [''Customer email is required''] else [])"

text \<open>A listing that runs from the newest order to the oldest.\<close>

definition newest_first :: "order list \<Rightarrow> bool" where
  "newest_first docs = sorted_wrt (\<lambda>a b. createdAt b \<le> createdAt a) docs"

section \<open>Sample data\<close>

text \<open>
  A request environment in which nothing fails, the same a minute later, an address, two
  cart items, a stored
  order with a given id, owner, status and creation time, and the completion event
  that names an order.
\<close>

definition quiet :: env where
  "quiet =
     \<lparr>date_now = ''1700000000000'', random36 = ''k3j9x0q1z'',
      iso_created = 1700000000000, iso_updated = 1700000000001, iso_now = 1700000000002,
      create_fault = None, query_fault = None, read_fault = None, replace_fault = None\<rparr>"

definition later :: env where
  "later = quiet\<lparr>iso_now := 1700000060000\<rparr>"

definition home :: address where
  "home = \<lparr>street = Some ''1 High Street'', city = Some ''Leeds'', postalCode = Some ''LS1 1AA'',
            country = Some ''GB''\<rparr>"

definition mug :: item where
  "mug = \<lparr>name = ''Mug'', description = ''A mug'', images = [], price = 1999 / 100, quantity = 1\<rparr>"

definition plate :: item where
  "plate = \<lparr>name = ''Plate'', description = '' '', images = [], price = 15, quantity = 2\<rparr>"

definition stored :: "string \<Rightarrow> string \<Rightarrow> string \<Rightarrow> timestamp \<Rightarrow> order" where
  "stored i owner st t =
     \<lparr>order_id = i, userId = Some owner, items = [mug, plate], address = home, status = st,
      total_amount = 4999, stripeSessionId = Some ''sess_abc'', customerEmail = ''a@example.com'',
      metadata = [(''order_ref'', ''ORD-1'')], createdAt = t, updatedAt = t\<rparr>"

definition completed :: "string \<Rightarrow> stripe_event" where
  "completed i = \<lparr>event_type = ''checkout.session.completed'', client_reference_id = Some i\<rparr>"

text \<open>
  Twenty-five stored orders of one owner with distinct ids and creation times, the order
  that a checkout of the sample basket creates, a cart item with no quantity and a
  negative price, and a session as the provider returns it.
\<close>

definition twenty_five :: container where
  "twenty_five = map (\<lambda>n. stored (''order_'' @ replicate n CHR ''x'') ''u1'' ''pending'' n) [0..<25]"

definition placed :: order where
  "placed =
     \<lparr>order_id = ''order_1700000000000_k3j9x0q1z'', userId = Some ''u1'', items = [mug, plate],
      address = home, status = ''pending'', total_amount = 4999, stripeSessionId = None,
      customerEmail = ''a@example.com'', metadata = [(''order_ref'', ''ORD-1'')],
      createdAt = 1700000000000, updatedAt = 1700000000001\<rparr>"

definition freebie :: item where
  "freebie = \<lparr>name = ''Freebie'', description = ''Nothing'', images = [], price = - 5, quantity = 0\<rparr>"

definition basket :: checkout_body where
  "basket =
     \<lparr>cartItems = Some [mug, plate], body_customerEmail = Some ''a@example.com'',
      body_address = Some home, body_total = Some 4999,
      body_metadata = Some [(''order_ref'', ''ORD-1'')]\<rparr>"

definition sess_abc :: session where
  "sess_abc = \<lparr>session_id = ''sess_abc'', session_url = ''https://checkout.example/sess_abc''\<rparr>"

section \<open>Facts about the container\<close>

lemma replace_first_agree:
  "filter P c = d # rest \<Longrightarrow> Q d \<Longrightarrow> (\<And>x. Q x \<Longrightarrow> P x) \<Longrightarrow>
   replace_first Q doc c = replace_first P doc c"
proof (induction c)
  case Nil
  then show ?case by simp
next
  case (Cons x xs)
  show ?case
  proof (cases "P x")
    case True
    with Cons.prems have "x = d" by simp
    with True Cons.prems show ?thesis by simp
  next
    case False
    with Cons.prems have "\<not> Q x" by blast
    with False Cons show ?thesis by simp
  qed
qed

lemma filter_replace_first:
  "filter P c = d # rest \<Longrightarrow> P doc \<Longrightarrow> filter P (replace_first P doc c) = doc # rest"
  by (induction c) (auto split: if_splits)

lemma find_replace_first:
  "list_ex P c \<Longrightarrow> P doc \<Longrightarrow> find P (replace_first P doc c) = Some doc"
  by (induction c) auto

lemma list_all2_replace_first:
  "filter P c = d # rest \<Longrightarrow> R d doc \<Longrightarrow> (\<And>x. R x x) \<Longrightarrow>
   list_all2 R c (replace_first P doc c)"
proof (induction c)
  case Nil
  then show ?case by simp
next
  case (Cons x xs)
  show ?case
  proof (cases "P x")
    case True
    with Cons.prems have "x = d" by simp
    with True Cons.prems show ?thesis by (simp add: list_all2_refl)
  next
    case False
    with Cons show ?thesis by simp
  qed
qed

lemma replace_first_twice:
  "P doc1 \<Longrightarrow> replace_first P doc2 (replace_first P doc1 c) = replace_first P doc2 c"
  by (induction c) auto

lemma replace_first_snoc:
  "\<not> list_ex p c \<Longrightarrow> p x \<Longrightarrow> replace_first p doc (c @ [x]) = c @ [doc]"
  by (induction c) auto

lemma find_snoc:
  "\<not> list_ex p c \<Longrightarrow> p x \<Longrightarrow> find p (c @ [x]) = Some x"
  by (induction c) auto

lemma first_match_exists:
  "filter (\<lambda>doc. order_id doc = i) c = d # rest \<Longrightarrow>
   order_id d = i \<and> list_ex (same_item i (userId d)) c"
proof -
  assume h: "filter (\<lambda>doc. order_id doc = i) c = d # rest"
  then have "d \<in> set (filter (\<lambda>doc. order_id doc = i) c)" by simp
  then have "d \<in> set c" "order_id d = i" by auto
  then show ?thesis by (auto simp: list_ex_iff same_item_def)
qed

text \<open>A successful replace of the first document with a given id by an updated copy.\<close>

lemma replace_scanned:
  assumes "filter (\<lambda>doc. order_id doc = i) c = d # rest"
    and "order_id doc = i" and "userId doc = userId d"
  shows "item_replace None c i (userId d) doc = Inr (replace_first (\<lambda>x. order_id x = i) doc c)"
proof -
  from first_match_exists [OF assms(1)] have d: "order_id d = i" and ex: "list_ex (same_item i (userId d)) c"
    by simp_all
  have "replace_first (same_item i (userId d)) doc c = replace_first (\<lambda>x. order_id x = i) doc c"
    by (rule replace_first_agree [OF assms(1)]) (simp_all add: same_item_def d)
  with ex assms(2,3) show ?thesis by (simp add: item_replace_def same_item_def)
qed

lemma query_after_replace:
  assumes "filter (\<lambda>doc. order_id doc = i) c = d # rest" and "order_id doc = i"
  shows "query_by_id None (replace_first (\<lambda>x. order_id x = i) doc c) i = Inr (doc # rest)"
  using filter_replace_first [OF assms(1), of doc] assms(2) by (simp add: query_by_id_def)

lemma read_after_replace:
  assumes "filter (\<lambda>doc. order_id doc = i) c = d # rest" and "order_id doc = i"
    and "userId doc = userId d"
  shows "item_read None (replace_first (\<lambda>x. order_id x = i) doc c) i (userId d) = Inr (Some doc)"
proof -
  from first_match_exists [OF assms(1)] have d: "order_id d = i" and ex: "list_ex (same_item i (userId d)) c"
    by simp_all
  have "replace_first (same_item i (userId d)) doc c = replace_first (\<lambda>x. order_id x = i) doc c"
    by (rule replace_first_agree [OF assms(1)]) (simp_all add: same_item_def d)
  moreover have "find (same_item i (userId d)) (replace_first (same_item i (userId d)) doc c) = Some doc"
    by (rule find_replace_first [OF ex]) (simp add: same_item_def assms)
  ultimately show ?thesis by (simp add: item_read_def)
qed

section \<open>Facts about the order model\<close>

lemma generateId_nonempty: "generateId e \<noteq> []"
  by (simp add: generateId_def)

lemma fromDocument_status: "status doc \<noteq> [] \<Longrightarrow> status (fromDocument e doc) = status doc"
  by (simp add: fromDocument_def new_Order_def)

lemma fromDocument_updatedAt: "updatedAt (fromDocument e doc) = updatedAt doc"
  by (simp add: fromDocument_def new_Order_def)

lemma fromDocument_fields:
  "order_id doc \<noteq> [] \<Longrightarrow> order_id (fromDocument e doc) = order_id doc"
  "userId (fromDocument e doc) = userId doc"
  "stripeSessionId doc = None \<Longrightarrow> stripeSessionId (fromDocument e doc) = None"
  "stripeSessionId doc = Some s \<Longrightarrow> s \<noteq> [] \<Longrightarrow> stripeSessionId (fromDocument e doc) = Some s"
  by (simp_all add: fromDocument_def new_Order_def)

lemma createdAt_fromDocument: "createdAt (fromDocument e doc) = createdAt doc"
  by (simp add: fromDocument_def new_Order_def)

lemma valid_status_nonempty: "s \<in> set validStatuses \<Longrightarrow> s \<noteq> []"
  by (auto simp: validStatuses_def)

section \<open>The completion event\<close>

lemma webhook_found:
  assumes "filter (\<lambda>doc. order_id doc = i) c = d # rest" and "i \<noteq> []"
    and "query_fault e = None" and "replace_fault e = None"
  shows "handleStripeWebhook e c (Inr (completed i)) =
           (Respond 200 Received,
            replace_first (\<lambda>x. order_id x = i) (d\<lparr>status := ''confirmed'', updatedAt := iso_now e\<rparr>) c)"
proof -
  from first_match_exists [OF assms(1)] have "order_id d = i" by simp
  then have "item_replace None c i (userId d) (d\<lparr>status := ''confirmed'', updatedAt := iso_now e\<rparr>) =
      Inr (replace_first (\<lambda>x. order_id x = i) (d\<lparr>status := ''confirmed'', updatedAt := iso_now e\<rparr>) c)"
    by (intro replace_scanned [OF assms(1)]) simp_all
  with assms show ?thesis
    by (simp add: handleStripeWebhook_def completed_def query_by_id_def)
qed

text \<open>
  C7. A verified completion event whose correlation id matches no stored order is
  answered with \<^verbatim>\<open>{received: true}\<close> (status 200): the handler neither passes an error on
  nor throws, and the container is left exactly as it was, so no order is created. This
  holds whatever the store calls do.
\<close>

theorem unknown_order_is_acknowledged:
  assumes "i \<notin> set (map order_id c)"
  shows "handleStripeWebhook e c (Inr (completed i)) = (Respond 200 Received, c)"
proof -
  from assms have "filter (\<lambda>doc. order_id doc = i) c = []" by (auto simp: filter_empty_conv)
  then show ?thesis
    by (simp add: handleStripeWebhook_def completed_def query_by_id_def split: option.splits)
qed

theorem unknown_order_is_acknowledged_witness:
  "''order_2'' \<notin> set (map order_id [stored ''order_1'' ''u1'' ''pending'' 5])
   \<and> handleStripeWebhook quiet [stored ''order_1'' ''u1'' ''pending'' 5] (Inr (completed ''order_2''))
       = (Respond 200 Received, [stored ''order_1'' ''u1'' ''pending'' 5])"
proof -
  have h: "''order_2'' \<notin> set (map order_id [stored ''order_1'' ''u1'' ''pending'' 5])"
    by (simp add: stored_def)
  from h unknown_order_is_acknowledged [OF h] show ?thesis by blast
qed

text \<open>
  C1, as amended. Let \<open>d\<close> be the stored order that the scan by id finds for the event's
  (non-empty) correlation id, and let the store calls succeed. The event is acknowledged and the
  persisted order becomes \<open>d\<close> with \<^verbatim>\<open>status\<close> overwritten by \<^verbatim>\<open>confirmed\<close> and \<^verbatim>\<open>updatedAt\<close>
  by the current time, whatever the status of \<open>d\<close> was. An order that was already
  \<^verbatim>\<open>confirmed\<close> therefore keeps its status and only has \<^verbatim>\<open>updatedAt\<close> refreshed; an order
  in a later state is moved back to \<^verbatim>\<open>confirmed\<close>.
\<close>

theorem completion_overwrites_status:
  assumes "filter (\<lambda>doc. order_id doc = i) c = d # rest" and "i \<noteq> []"
    and "query_fault e = None" and "replace_fault e = None"
  shows "fst (handleStripeWebhook e c (Inr (completed i))) = Respond 200 Received
       \<and> query_by_id None (snd (handleStripeWebhook e c (Inr (completed i)))) i
           = Inr (d\<lparr>status := ''confirmed'', updatedAt := iso_now e\<rparr> # rest)
       \<and> item_read None (snd (handleStripeWebhook e c (Inr (completed i)))) i (userId d)
           = Inr (Some (d\<lparr>status := ''confirmed'', updatedAt := iso_now e\<rparr>))"
proof -
  from first_match_exists [OF assms(1)] have d: "order_id d = i" by simp
  show ?thesis
    unfolding webhook_found [OF assms]
    using query_after_replace [OF assms(1), of "d\<lparr>status := ''confirmed'', updatedAt := iso_now e\<rparr>"]
      read_after_replace [OF assms(1), of "d\<lparr>status := ''confirmed'', updatedAt := iso_now e\<rparr>"] d
    by simp
qed

theorem completion_overwrites_status_witness:
  "filter (\<lambda>doc. order_id doc = ''order_1'') [stored ''order_1'' ''u1'' ''confirmed'' 5]
     = stored ''order_1'' ''u1'' ''confirmed'' 5 # []
   \<and> ''order_1'' \<noteq> [] \<and> query_fault quiet = None \<and> replace_fault quiet = None
   \<and> query_by_id None
        (snd (handleStripeWebhook quiet [stored ''order_1'' ''u1'' ''confirmed'' 5] (Inr (completed ''order_1''))))
        ''order_1''
       = Inr [(stored ''order_1'' ''u1'' ''confirmed'' 5)\<lparr>status := ''confirmed'', updatedAt := 1700000000002\<rparr>]"
proof -
  have h: "filter (\<lambda>doc. order_id doc = ''order_1'') [stored ''order_1'' ''u1'' ''confirmed'' 5]
     = stored ''order_1'' ''u1'' ''confirmed'' 5 # []"
    by (simp add: stored_def)
  have n: "''order_1'' \<noteq> []" by simp
  have q: "query_fault quiet = None" "replace_fault quiet = None" "iso_now quiet = 1700000000002"
    by (simp_all add: quiet_def)
  from completion_overwrites_status [OF h n q(1,2)] h n q show ?thesis by simp
qed

text \<open>
  The claim as stated fails: a delivered order does not survive the event unchanged, its
  status becomes \<^verbatim>\<open>confirmed\<close>.
\<close>

theorem completion_reverts_delivered_order:
  "status (stored ''order_1'' ''u1'' ''delivered'' 5) = ''delivered''
   \<and> snd (handleStripeWebhook quiet [stored ''order_1'' ''u1'' ''delivered'' 5] (Inr (completed ''order_1'')))
       \<noteq> [stored ''order_1'' ''u1'' ''delivered'' 5]
   \<and> map status
        (snd (handleStripeWebhook quiet [stored ''order_1'' ''u1'' ''delivered'' 5] (Inr (completed ''order_1''))))
       = [''confirmed'']"
  by (simp add: handleStripeWebhook_def completed_def query_by_id_def item_replace_def same_item_def
      stored_def quiet_def)

text \<open>
  C2, as amended. Let the scan by id find the order \<open>d\<close> (in any status, in particular
  \<^verbatim>\<open>pending\<close>) and let the store calls of both deliveries succeed. After one delivery the
  order is \<^verbatim>\<open>confirmed\<close> with the time of that delivery as \<^verbatim>\<open>updatedAt\<close>; after a second
  delivery of the same event it is still \<^verbatim>\<open>confirmed\<close>, but \<^verbatim>\<open>updatedAt\<close> is now the time of
  the second delivery. Every document of the container agrees with its state after the
  first delivery on all fields but \<^verbatim>\<open>updatedAt\<close>, and the container is the one a single
  delivery at the time of the second would have produced.
\<close>

theorem duplicate_completion_same_state:
  assumes "filter (\<lambda>doc. order_id doc = i) c = d # rest" and "i \<noteq> []"
    and "query_fault e1 = None" and "replace_fault e1 = None"
    and "query_fault e2 = None" and "replace_fault e2 = None"
  shows "query_by_id None (snd (handleStripeWebhook e1 c (Inr (completed i)))) i
           = Inr (d\<lparr>status := ''confirmed'', updatedAt := iso_now e1\<rparr> # rest)
       \<and> query_by_id None
            (snd (handleStripeWebhook e2 (snd (handleStripeWebhook e1 c (Inr (completed i))))
                    (Inr (completed i)))) i
           = Inr (d\<lparr>status := ''confirmed'', updatedAt := iso_now e2\<rparr> # rest)
       \<and> list_all2 same_except_updatedAt
            (snd (handleStripeWebhook e1 c (Inr (completed i))))
            (snd (handleStripeWebhook e2 (snd (handleStripeWebhook e1 c (Inr (completed i))))
                    (Inr (completed i))))
       \<and> snd (handleStripeWebhook e2 (snd (handleStripeWebhook e1 c (Inr (completed i))))
                (Inr (completed i)))
           = snd (handleStripeWebhook e2 c (Inr (completed i)))"
proof -
  let ?P = "\<lambda>x. order_id x = i"
  let ?d1 = "d\<lparr>status := ''confirmed'', updatedAt := iso_now e1\<rparr>"
  let ?d2 = "d\<lparr>status := ''confirmed'', updatedAt := iso_now e2\<rparr>"
  let ?once = "replace_first ?P ?d1 c"
  from first_match_exists [OF assms(1)] have d: "order_id d = i" by simp
  have once: "snd (handleStripeWebhook e1 c (Inr (completed i))) = ?once"
    by (simp add: webhook_found [OF assms(1,2,3,4)])
  have f1: "filter ?P ?once = ?d1 # rest"
    by (rule filter_replace_first [OF assms(1)]) (simp add: d)
  have "snd (handleStripeWebhook e2 ?once (Inr (completed i)))
      = replace_first ?P (?d1\<lparr>status := ''confirmed'', updatedAt := iso_now e2\<rparr>) ?once"
    by (simp add: webhook_found [OF f1 assms(2,5,6)])
  then have twice: "snd (handleStripeWebhook e2 ?once (Inr (completed i))) = replace_first ?P ?d2 c"
    by (simp add: replace_first_twice d)
  have direct: "snd (handleStripeWebhook e2 c (Inr (completed i))) = replace_first ?P ?d2 c"
    by (simp add: webhook_found [OF assms(1,2,5,6)])
  have q1: "query_by_id None ?once i = Inr (?d1 # rest)"
    by (rule query_after_replace [OF assms(1)]) (simp add: d)
  have q2: "query_by_id None (replace_first ?P ?d2 c) i = Inr (?d2 # rest)"
    by (rule query_after_replace [OF assms(1)]) (simp add: d)
  have "list_all2 same_except_updatedAt ?once (replace_first ?P ?d2 ?once)"
    by (rule list_all2_replace_first [OF f1])
      (simp_all add: same_except_updatedAt_def same_except_status_and_updatedAt_def)
  then have fr: "list_all2 same_except_updatedAt ?once (replace_first ?P ?d2 c)"
    by (simp add: replace_first_twice d)
  show ?thesis
    unfolding once twice direct using q1 q2 fr by simp
qed

theorem duplicate_completion_same_state_witness:
  "filter (\<lambda>doc. order_id doc = ''order_1'') [stored ''order_1'' ''u1'' ''pending'' 5]
     = stored ''order_1'' ''u1'' ''pending'' 5 # []
   \<and> ''order_1'' \<noteq> []
   \<and> query_fault quiet = None \<and> replace_fault quiet = None
   \<and> query_fault later = None \<and> replace_fault later = None
   \<and> query_by_id None
        (snd (handleStripeWebhook quiet [stored ''order_1'' ''u1'' ''pending'' 5]
                (Inr (completed ''order_1''))))
        ''order_1''
       = Inr [(stored ''order_1'' ''u1'' ''pending'' 5)
                \<lparr>status := ''confirmed'', updatedAt := 1700000000002\<rparr>]
   \<and> query_by_id None
        (snd (handleStripeWebhook later
                (snd (handleStripeWebhook quiet [stored ''order_1'' ''u1'' ''pending'' 5]
                        (Inr (completed ''order_1''))))
                (Inr (completed ''order_1''))))
        ''order_1''
       = Inr [(stored ''order_1'' ''u1'' ''pending'' 5)
                \<lparr>status := ''confirmed'', updatedAt := 1700000060000\<rparr>]
   \<and> snd (handleStripeWebhook later
            (snd (handleStripeWebhook quiet [stored ''order_1'' ''u1'' ''pending'' 5]
                    (Inr (completed ''order_1''))))
            (Inr (completed ''order_1'')))
       = snd (handleStripeWebhook later [stored ''order_1'' ''u1'' ''pending'' 5]
                (Inr (completed ''order_1'')))"
proof -
  have h: "filter (\<lambda>doc. order_id doc = ''order_1'') [stored ''order_1'' ''u1'' ''pending'' 5]
     = stored ''order_1'' ''u1'' ''pending'' 5 # []"
    by (simp add: stored_def)
  have n: "''order_1'' \<noteq> []" by simp
  have q: "query_fault quiet = None" "replace_fault quiet = None"
    by (simp_all add: quiet_def)
  have l: "query_fault later = None" "replace_fault later = None"
    by (simp_all add: later_def quiet_def)
  have t: "iso_now quiet = 1700000000002" "iso_now later = 1700000060000"
    by (simp_all add: later_def quiet_def)
  note r = duplicate_completion_same_state [OF h n q l, unfolded t]
  from r h n q l show ?thesis by blast
qed

text \<open>
  The claim as stated fails: a pending order that receives the event and, a minute later,
  the same event again does not end in the state the first delivery left. Its status is
  \<^verbatim>\<open>confirmed\<close> both times, but \<^verbatim>\<open>updatedAt\<close> has moved to the time of the second delivery.
\<close>

theorem second_delivery_changes_updatedAt:
  "snd (handleStripeWebhook later
          (snd (handleStripeWebhook quiet [stored ''order_1'' ''u1'' ''pending'' 5]
                  (Inr (completed ''order_1''))))
          (Inr (completed ''order_1'')))
     \<noteq> snd (handleStripeWebhook quiet [stored ''order_1'' ''u1'' ''pending'' 5]
              (Inr (completed ''order_1'')))
   \<and> map updatedAt
        (snd (handleStripeWebhook quiet [stored ''order_1'' ''u1'' ''pending'' 5]
                (Inr (completed ''order_1''))))
       = [1700000000002]
   \<and> map updatedAt
        (snd (handleStripeWebhook later
                (snd (handleStripeWebhook quiet [stored ''order_1'' ''u1'' ''pending'' 5]
                        (Inr (completed ''order_1''))))
                (Inr (completed ''order_1''))))
       = [1700000060000]"
  by (simp add: handleStripeWebhook_def completed_def query_by_id_def item_replace_def same_item_def
      stored_def quiet_def later_def)

text \<open>
  C6, as amended. A verified event is always acknowledged with \<^verbatim>\<open>{received: true}\<close>; when
  the lookup or the replace fails with a store error, the handler catches it, leaves the
  container as it was and still acknowledges the event: the error does not reach the
  request boundary.
\<close>

theorem webhook_swallows_store_errors:
  "fst (handleStripeWebhook e c (Inr ev)) = Respond 200 Received
   \<and> handleStripeWebhook (e\<lparr>query_fault := Some err\<rparr>) c (Inr ev) = (Respond 200 Received, c)
   \<and> handleStripeWebhook (e\<lparr>replace_fault := Some err\<rparr>) c (Inr ev) = (Respond 200 Received, c)"
  by (simp add: handleStripeWebhook_def query_by_id_def item_replace_def
      split: option.splits sum.splits list.splits)

text \<open>
  The claim as stated fails: with an existing pending order and a replace that fails
  with a 503, the handler answers \<^verbatim>\<open>{received: true}\<close> instead of passing the error on.
\<close>

theorem replace_failure_is_not_propagated:
  "handleStripeWebhook (quiet\<lparr>replace_fault := Some (CosmosError 503 ''Service Unavailable'')\<rparr>)
      [stored ''order_1'' ''u1'' ''pending'' 5] (Inr (completed ''order_1''))
     = (Respond 200 Received, [stored ''order_1'' ''u1'' ''pending'' 5])
   \<and> fst (handleStripeWebhook (quiet\<lparr>replace_fault := Some (CosmosError 503 ''Service Unavailable'')\<rparr>)
      [stored ''order_1'' ''u1'' ''pending'' 5] (Inr (completed ''order_1'')))
     \<noteq> Next (CosmosError 503 ''Service Unavailable'')"
  by (simp add: handleStripeWebhook_def completed_def query_by_id_def item_replace_def stored_def quiet_def)

section \<open>The administrative status update\<close>

lemma update_found:
  assumes "filter (\<lambda>doc. order_id doc = i) c = d # rest" and "s \<in> set validStatuses"
    and "query_fault e = None" and "replace_fault e = None"
  shows "updateOrderStatus e c i (Some s) =
           (Respond 200 (OrderJson (fromDocument e (d\<lparr>status := s, updatedAt := iso_now e\<rparr>))),
            replace_first (\<lambda>x. order_id x = i) (d\<lparr>status := s, updatedAt := iso_now e\<rparr>) c)"
proof -
  from first_match_exists [OF assms(1)] have "order_id d = i" by simp
  then have "item_replace None c i (userId d) (d\<lparr>status := s, updatedAt := iso_now e\<rparr>) =
      Inr (replace_first (\<lambda>x. order_id x = i) (d\<lparr>status := s, updatedAt := iso_now e\<rparr>) c)"
    by (intro replace_scanned [OF assms(1)]) simp_all
  with assms show ?thesis
    by (simp add: updateOrderStatus_def query_by_id_def)
qed

text \<open>
  C8. The status update answers 400 \<^verbatim>\<open>Invalid status\<close> when the body has no status or one
  outside the six enumerated values, before it looks at the store; for an enumerated
  status it answers 404 \<^verbatim>\<open>Order not found\<close> when no document has the id; and when the scan
  finds the order \<open>d\<close> and the store calls succeed it answers 200 with the order carrying
  the new status and the current time as \<^verbatim>\<open>updatedAt\<close>, and both are what a later scan by
  id and a later fetch by owner and id return.
\<close>

theorem updateOrderStatus_contract:
  "updateOrderStatus e c i None = (Respond 400 (Failure ''Invalid status''), c)
   \<and> (s \<notin> set validStatuses \<longrightarrow>
        updateOrderStatus e c i (Some s) = (Respond 400 (Failure ''Invalid status''), c))
   \<and> (s \<in> set validStatuses \<and> query_fault e = None \<and> i \<notin> set (map order_id c) \<longrightarrow>
        updateOrderStatus e c i (Some s) = (Respond 404 (Failure ''Order not found''), c))
   \<and> (s \<in> set validStatuses \<and> query_fault e = None \<and> replace_fault e = None
        \<and> filter (\<lambda>doc. order_id doc = i) c = d # rest \<and> userId d = Some owner
        \<and> read_fault e' = None \<longrightarrow>
        (\<exists>ord ord'. fst (updateOrderStatus e c i (Some s)) = Respond 200 (OrderJson ord)
           \<and> status ord = s \<and> updatedAt ord = iso_now e
           \<and> query_by_id None (snd (updateOrderStatus e c i (Some s))) i
               = Inr (d\<lparr>status := s, updatedAt := iso_now e\<rparr> # rest)
           \<and> getOrderById e' (snd (updateOrderStatus e c i (Some s))) owner i
               = Respond 200 (OrderJson ord')
           \<and> status ord' = s \<and> updatedAt ord' = iso_now e))"
proof (intro conjI impI)
  show "updateOrderStatus e c i None = (Respond 400 (Failure ''Invalid status''), c)"
    by (simp add: updateOrderStatus_def)
next
  assume "s \<notin> set validStatuses"
  then show "updateOrderStatus e c i (Some s) = (Respond 400 (Failure ''Invalid status''), c)"
    by (simp add: updateOrderStatus_def)
next
  assume a: "s \<in> set validStatuses \<and> query_fault e = None \<and> i \<notin> set (map order_id c)"
  then have "filter (\<lambda>doc. order_id doc = i) c = []" by (auto simp: filter_empty_conv)
  with a show "updateOrderStatus e c i (Some s) = (Respond 404 (Failure ''Order not found''), c)"
    by (simp add: updateOrderStatus_def query_by_id_def)
next
  assume a: "s \<in> set validStatuses \<and> query_fault e = None \<and> replace_fault e = None
        \<and> filter (\<lambda>doc. order_id doc = i) c = d # rest \<and> userId d = Some owner
        \<and> read_fault e' = None"
  let ?d = "d\<lparr>status := s, updatedAt := iso_now e\<rparr>"
  from a have f: "filter (\<lambda>doc. order_id doc = i) c = d # rest" by simp
  from first_match_exists [OF f] have d: "order_id d = i" by simp
  from a have s: "s \<noteq> []" by (simp add: valid_status_nonempty)
  have u: "updateOrderStatus e c i (Some s) =
      (Respond 200 (OrderJson (fromDocument e ?d)), replace_first (\<lambda>x. order_id x = i) ?d c)"
    using a by (intro update_found [OF f]) simp_all
  have q: "query_by_id None (replace_first (\<lambda>x. order_id x = i) ?d c) i = Inr (?d # rest)"
    by (rule query_after_replace [OF f]) (simp add: d)
  have "item_read None (replace_first (\<lambda>x. order_id x = i) ?d c) i (userId d) = Inr (Some ?d)"
    by (rule read_after_replace [OF f]) (simp_all add: d)
  with a have g: "getOrderById e' (replace_first (\<lambda>x. order_id x = i) ?d c) owner i
      = Respond 200 (OrderJson (fromDocument e' ?d))"
    by (simp add: getOrderById_def)
  show "\<exists>ord ord'. fst (updateOrderStatus e c i (Some s)) = Respond 200 (OrderJson ord)
           \<and> status ord = s \<and> updatedAt ord = iso_now e
           \<and> query_by_id None (snd (updateOrderStatus e c i (Some s))) i
               = Inr (d\<lparr>status := s, updatedAt := iso_now e\<rparr> # rest)
           \<and> getOrderById e' (snd (updateOrderStatus e c i (Some s))) owner i
               = Respond 200 (OrderJson ord')
           \<and> status ord' = s \<and> updatedAt ord' = iso_now e"
    unfolding u using q g s
    by (intro exI [of _ "fromDocument e ?d"] exI [of _ "fromDocument e' ?d"])
      (simp add: fromDocument_status fromDocument_updatedAt)
qed

theorem updateOrderStatus_contract_witness:
  "''shipped'' \<notin> set validStatuses
   \<and> updateOrderStatus quiet [stored ''order_1'' ''u1'' ''pending'' 5] ''order_1'' (Some ''shipped'')
       = (Respond 400 (Failure ''Invalid status''), [stored ''order_1'' ''u1'' ''pending'' 5])
   \<and> ''processing'' \<in> set validStatuses
   \<and> updateOrderStatus quiet [stored ''order_1'' ''u1'' ''pending'' 5] ''order_2'' (Some ''processing'')
       = (Respond 404 (Failure ''Order not found''), [stored ''order_1'' ''u1'' ''pending'' 5])
   \<and> query_by_id None
        (snd (updateOrderStatus quiet [stored ''order_1'' ''u1'' ''pending'' 5] ''order_1'' (Some ''processing'')))
        ''order_1''
       = Inr [(stored ''order_1'' ''u1'' ''pending'' 5)\<lparr>status := ''processing'', updatedAt := 1700000000002\<rparr>]"
proof -
  let ?c = "[stored ''order_1'' ''u1'' ''pending'' 5]"
  have a: "''shipped'' \<notin> set validStatuses" by (simp add: validStatuses_def)
  have b: "''processing'' \<in> set validStatuses" by (simp add: validStatuses_def)
  have q: "query_fault quiet = None" "replace_fault quiet = None" "read_fault quiet = None"
    "iso_now quiet = 1700000000002"
    by (simp_all add: quiet_def)
  have n: "''order_2'' \<notin> set (map order_id ?c)" by (simp add: stored_def)
  have f: "filter (\<lambda>doc. order_id doc = ''order_1'') ?c = stored ''order_1'' ''u1'' ''pending'' 5 # []"
    by (simp add: stored_def)
  have u: "userId (stored ''order_1'' ''u1'' ''pending'' 5) = Some ''u1''" by (simp add: stored_def)
  from updateOrderStatus_contract [of quiet ?c "''order_1''" "''shipped''"] a
  have 1: "updateOrderStatus quiet ?c ''order_1'' (Some ''shipped'')
       = (Respond 400 (Failure ''Invalid status''), ?c)" by blast
  from updateOrderStatus_contract [of quiet ?c "''order_2''" "''processing''"] b q(1) n
  have 2: "updateOrderStatus quiet ?c ''order_2'' (Some ''processing'')
       = (Respond 404 (Failure ''Order not found''), ?c)" by blast
  from updateOrderStatus_contract
    [of quiet ?c "''order_1''" "''processing''" "stored ''order_1'' ''u1'' ''pending'' 5" "[]" "''u1''" quiet]
    b q f u
  have 3: "query_by_id None (snd (updateOrderStatus quiet ?c ''order_1'' (Some ''processing''))) ''order_1''
       = Inr [(stored ''order_1'' ''u1'' ''pending'' 5)\<lparr>status := ''processing'', updatedAt := 1700000000002\<rparr>]"
    by auto
  from a b 1 2 3 show ?thesis by blast
qed

section \<open>The frame of the two status-mutating paths\<close>

lemma frame_refl: "same_except_status_and_updatedAt x x"
  by (simp add: same_except_status_and_updatedAt_def)

lemma frame_replace_scanned:
  assumes "filter (\<lambda>doc. order_id doc = i) c = d # rest"
    and "item_replace fault c i (userId d) (d\<lparr>status := s, updatedAt := t\<rparr>) = Inr c'"
  shows "list_all2 same_except_status_and_updatedAt c c'"
proof -
  from assms(2) have f: "fault = None" by (cases fault) (simp_all add: item_replace_def)
  from first_match_exists [OF assms(1)] have d: "order_id d = i" by simp
  have "item_replace None c i (userId d) (d\<lparr>status := s, updatedAt := t\<rparr>)
      = Inr (replace_first (\<lambda>x. order_id x = i) (d\<lparr>status := s, updatedAt := t\<rparr>) c)"
    by (rule replace_scanned [OF assms(1)]) (simp_all add: d)
  with assms(2) f have c': "c' = replace_first (\<lambda>x. order_id x = i) (d\<lparr>status := s, updatedAt := t\<rparr>) c"
    by simp
  show ?thesis unfolding c'
    by (rule list_all2_replace_first [OF assms(1)])
      (simp_all add: same_except_status_and_updatedAt_def)
qed

lemma frame_webhook:
  "list_all2 same_except_status_and_updatedAt c (snd (handleStripeWebhook e c constructed))"
  by (auto simp: handleStripeWebhook_def query_by_id_def list_all2_refl frame_refl
      split: sum.splits option.splits list.splits
      intro: frame_replace_scanned)

lemma frame_update:
  "list_all2 same_except_status_and_updatedAt c (snd (updateOrderStatus e c i body_status))"
  by (auto simp: updateOrderStatus_def query_by_id_def list_all2_refl frame_refl
      split: sum.splits option.splits list.splits
      intro: frame_replace_scanned)

text \<open>
  C10. Whatever the request, the environment and the outcome, the container after the
  administrative status update, and after the completion-event handler, has the same
  documents in the same places as before, each with its id, userId, items, address,
  total, stripeSessionId, customerEmail, metadata and createdAt unchanged: only status
  and updatedAt may differ.
\<close>

theorem status_paths_frame:
  "list_all2 same_except_status_and_updatedAt c (snd (updateOrderStatus e c i body_status))
   \<and> list_all2 same_except_status_and_updatedAt c (snd (handleStripeWebhook e c constructed))"
  using frame_webhook frame_update by blast

section \<open>Order creation\<close>

lemma validate_new_Order: "validate (new_Order e d) = violated_constraints d"
  by (cases "d_userId d"; cases "d_items d"; cases "d_address d"; cases "d_customerEmail d")
    (simp_all add: validate_def new_Order_def violated_constraints_def empty_address_def)

lemma createOrder_unfold:
  "createOrder e c d =
     (if violated_constraints d \<noteq> []
      then (Inl (Error (''Order validation failed: '' @ join '', '' (violated_constraints d))), c)
      else
        (case create_fault e of
           Some err \<Rightarrow> (Inl err, c)
         | None \<Rightarrow>
             if list_ex (\<lambda>x. order_id x = order_id (new_Order e d)) c
             then (Inl (CosmosError 409 ''Conflict''), c)
             else (Inr (fromDocument e (toDocument (new_Order e d))),
                   c @ [toDocument (new_Order e d)])))"
proof -
  have "order_id (toDocument (new_Order e d)) = order_id (new_Order e d)"
    by (simp add: toDocument_def)
  then show ?thesis
    by (simp add: createOrder_def Let_def validate_new_Order items_create_def split: option.splits)
qed

text \<open>
  C3, as amended. \<open>createOrder\<close> fails with an error whose message lists, after the prefix
  \<^verbatim>\<open>Order validation failed: \<close>, every violated constraint among: user id present, items
  non-empty, address with non-empty street, city and country (reported as one
  constraint), customer e-mail non-empty. The quantity and the price of the items are
  not examined. When all four hold it persists the order and returns it, unless the
  store call fails or a document with that id exists.
\<close>

theorem createOrder_validation:
  "createOrder e c d =
     (if violated_constraints d \<noteq> []
      then (Inl (Error (''Order validation failed: '' @ join '', '' (violated_constraints d))), c)
      else
        (case create_fault e of
           Some err \<Rightarrow> (Inl err, c)
         | None \<Rightarrow>
             if list_ex (\<lambda>x. order_id x = order_id (new_Order e d)) c
             then (Inl (CosmosError 409 ''Conflict''), c)
             else (Inr (fromDocument e (toDocument (new_Order e d))),
                   c @ [toDocument (new_Order e d)])))"
  by (rule createOrder_unfold)

theorem createOrder_validation_witness:
  "createOrder quiet []
      \<lparr>d_id = None, d_userId = Some ''u1'', d_items = Some [], d_address = None,
       d_status = None, d_total = None, d_stripeSessionId = None, d_customerEmail = None,
       d_metadata = None, d_createdAt = None, d_updatedAt = None\<rparr>
     = (Inl (Error ''Order validation failed: At least one item is required, Valid address is required, Customer email is required''),
        [])"
proof -
  have "violated_constraints
      \<lparr>d_id = None, d_userId = Some ''u1'', d_items = Some [], d_address = None,
       d_status = None, d_total = None, d_stripeSessionId = None, d_customerEmail = None,
       d_metadata = None, d_createdAt = None, d_updatedAt = None\<rparr>
     = [''At least one item is required'', ''Valid address is required'', ''Customer email is required'']"
    by (simp add: violated_constraints_def)
  with createOrder_validation [of quiet "[]" "\<lparr>d_id = None, d_userId = Some ''u1'', d_items = Some [], d_address = None,
       d_status = None, d_total = None, d_stripeSessionId = None, d_customerEmail = None,
       d_metadata = None, d_createdAt = None, d_updatedAt = None\<rparr>"]
  show ?thesis by simp
qed

text \<open>
  The claim as stated fails: an order whose only item has quantity 0 and a negative
  price passes validation and is persisted.
\<close>

theorem createOrder_accepts_bad_item:
  "quantity freebie = 0 \<and> price freebie < 0
   \<and> snd (createOrder quiet [] (checkout_order_data ''u1'' [freebie] home basket))
       = [\<lparr>order_id = ''order_1700000000000_k3j9x0q1z'', userId = Some ''u1'', items = [freebie],
           address = home, status = ''pending'', total_amount = 4999, stripeSessionId = None,
           customerEmail = ''a@example.com'', metadata = [(''order_ref'', ''ORD-1'')],
           createdAt = 1700000000000, updatedAt = 1700000000001\<rparr>]
   \<and> fst (createOrder quiet [] (checkout_order_data ''u1'' [freebie] home basket))
       = Inr \<lparr>order_id = ''order_1700000000000_k3j9x0q1z'', userId = Some ''u1'', items = [freebie],
           address = home, status = ''pending'', total_amount = 4999, stripeSessionId = None,
           customerEmail = ''a@example.com'', metadata = [(''order_ref'', ''ORD-1'')],
           createdAt = 1700000000000, updatedAt = 1700000000001\<rparr>"
  by (simp add: createOrder_def Let_def validate_def new_Order_def items_create_def toDocument_def
      fromDocument_def generateId_def checkout_order_data_def basket_def quiet_def home_def freebie_def)

section \<open>Checkout\<close>

lemma createOrder_for_checkout:
  assumes "createOrder e c (checkout_order_data user_id cart addr b) = (Inr ord, c1)"
  shows "\<exists>doc. c1 = c @ [doc] \<and> \<not> list_ex (same_item (generateId e) (Some user_id)) c
           \<and> order_id doc = generateId e \<and> userId doc = Some user_id
           \<and> status doc = ''pending'' \<and> stripeSessionId doc = None
           \<and> ord = fromDocument e doc"
proof -
  let ?d = "checkout_order_data user_id cart addr b"
  have n: "order_id (new_Order e ?d) = generateId e" "d_userId ?d = Some user_id"
    by (simp_all add: new_Order_def checkout_order_data_def)
  have t: "order_id (toDocument (new_Order e ?d)) = generateId e"
    "userId (toDocument (new_Order e ?d)) = Some user_id"
    "status (toDocument (new_Order e ?d)) = ''pending''"
    "stripeSessionId (toDocument (new_Order e ?d)) = None"
    by (simp_all add: toDocument_def new_Order_def checkout_order_data_def)
  from assms have "c1 = c @ [toDocument (new_Order e ?d)]
      \<and> \<not> list_ex (\<lambda>x. order_id x = generateId e) c
      \<and> ord = fromDocument e (toDocument (new_Order e ?d))"
    unfolding createOrder_unfold n by (auto split: if_splits option.splits)
  moreover have "\<not> list_ex (same_item (generateId e) (Some user_id)) c"
    if "\<not> list_ex (\<lambda>x. order_id x = generateId e) c"
    using that by (auto simp: list_ex_iff same_item_def)
  ultimately show ?thesis using t by blast
qed

lemma basket_order: "createOrder quiet [] (checkout_order_data ''u1'' [mug, plate] home basket) = (Inr placed, [placed])"
  by (simp add: createOrder_def Let_def validate_def new_Order_def items_create_def toDocument_def
      fromDocument_def generateId_def checkout_order_data_def basket_def quiet_def home_def placed_def)

text \<open>
  C4. When \<open>createOrder\<close> succeeds, the provider returns a session with a (non-empty)
  id and the replace succeeds, the handler answers 200 with the session's URL, and a
  later fetch of the order by owner and id returns it with \<^verbatim>\<open>stripeSessionId\<close> equal to
  the session id and status still \<^verbatim>\<open>pending\<close>.
\<close>

theorem checkout_round_trip:
  assumes "cartItems b = Some cart" and "cart \<noteq> []" and "body_address b = Some addr"
    and "createOrder e c (checkout_order_data user_id cart addr b) = (Inr ord, c1)"
    and "sessions_create (session_request_for cart b ord) = Inr sess"
    and "session_id sess \<noteq> []"
    and "replace_fault e = None" and "read_fault e' = None"
  shows "fst (createCheckoutSession sessions_create e c user_id b)
           = Respond 200 (CheckoutUrl (session_url sess))
       \<and> (\<exists>fetched.
             getOrderById e' (snd (createCheckoutSession sessions_create e c user_id b)) user_id
                 (order_id ord)
               = Respond 200 (OrderJson fetched)
             \<and> order_id fetched = order_id ord
             \<and> stripeSessionId fetched = Some (session_id sess)
             \<and> status fetched = ''pending'')"
proof -
  from createOrder_for_checkout [OF assms(4)] obtain doc where
    d: "c1 = c @ [doc]" "\<not> list_ex (same_item (generateId e) (Some user_id)) c"
      "order_id doc = generateId e" "userId doc = Some user_id"
      "status doc = ''pending''" "stripeSessionId doc = None" "ord = fromDocument e doc"
    by blast
  have i: "order_id ord = generateId e" "userId ord = Some user_id" "status ord = ''pending''"
    using d by (simp_all add: fromDocument_fields fromDocument_status generateId_nonempty)
  let ?upd = "(toDocument ord)\<lparr>stripeSessionId := Some (session_id sess), updatedAt := iso_now e\<rparr>"
  have u: "same_item (generateId e) (Some user_id) ?upd" "status ?upd = ''pending''"
    "stripeSessionId ?upd = Some (session_id sess)" "order_id ?upd = generateId e"
    using i by (simp_all add: same_item_def toDocument_def)
  have m: "same_item (generateId e) (Some user_id) doc"
    by (simp add: same_item_def d)
  have ex: "list_ex (same_item (generateId e) (Some user_id)) (c @ [doc])"
    using m by simp
  have rf: "replace_first (same_item (generateId e) (Some user_id)) ?upd (c @ [doc]) = c @ [?upd]"
    by (rule replace_first_snoc [OF d(2) m])
  have "item_replace (replace_fault e) c1 (order_id ord) (Some user_id) ?upd = Inr (c @ [?upd])"
    unfolding item_replace_def assms(7) d(1) i(1) using u(1) ex rf by simp
  then have r: "createCheckoutSession sessions_create e c user_id b
      = (Respond 200 (CheckoutUrl (session_url sess)), c @ [?upd])"
    by (simp add: createCheckoutSession_def assms)
  have "find (same_item (generateId e) (Some user_id)) (c @ [?upd]) = Some ?upd"
    by (rule find_snoc [OF d(2) u(1)])
  then have g: "getOrderById e' (c @ [?upd]) user_id (order_id ord)
      = Respond 200 (OrderJson (fromDocument e' ?upd))"
    by (simp add: getOrderById_def item_read_def assms(8) i(1))
  have f: "order_id (fromDocument e' ?upd) = order_id ord"
    "stripeSessionId (fromDocument e' ?upd) = Some (session_id sess)"
    "status (fromDocument e' ?upd) = ''pending''"
    using u assms(6) i(1)
    by (simp_all add: fromDocument_fields fromDocument_status generateId_nonempty)
  show ?thesis unfolding r using g f by simp
qed

theorem checkout_round_trip_witness:
  "cartItems basket = Some [mug, plate] \<and> [mug, plate] \<noteq> [] \<and> body_address basket = Some home
   \<and> createOrder quiet [] (checkout_order_data ''u1'' [mug, plate] home basket) = (Inr placed, [placed])
   \<and> (\<lambda>r. Inr sess_abc) (session_request_for [mug, plate] basket placed) = Inr sess_abc
   \<and> session_id sess_abc \<noteq> [] \<and> replace_fault quiet = None \<and> read_fault quiet = None
   \<and> fst (createCheckoutSession (\<lambda>r. Inr sess_abc) quiet [] ''u1'' basket)
       = Respond 200 (CheckoutUrl ''https://checkout.example/sess_abc'')
   \<and> (\<exists>fetched.
         getOrderById quiet (snd (createCheckoutSession (\<lambda>r. Inr sess_abc) quiet [] ''u1'' basket)) ''u1''
             ''order_1700000000000_k3j9x0q1z''
           = Respond 200 (OrderJson fetched)
         \<and> stripeSessionId fetched = Some ''sess_abc'' \<and> status fetched = ''pending'')"
proof -
  have h: "cartItems basket = Some [mug, plate]" "[mug, plate] \<noteq> []" "body_address basket = Some home"
    by (simp_all add: basket_def)
  have g: "(\<lambda>r. Inr sess_abc) (session_request_for [mug, plate] basket placed) = Inr sess_abc"
    by simp
  have s: "session_id sess_abc \<noteq> []" "session_id sess_abc = ''sess_abc''"
    "session_url sess_abc = ''https://checkout.example/sess_abc''"
    by (simp_all add: sess_abc_def)
  have q: "replace_fault quiet = None" "read_fault quiet = None" by (simp_all add: quiet_def)
  have p: "order_id placed = ''order_1700000000000_k3j9x0q1z''" by (simp add: placed_def)
  from checkout_round_trip [OF h basket_order g s(1) q] h basket_order s q p
  show ?thesis by auto
qed

text \<open>
  C5. When the order has been created and the provider's session call then fails, the
  handler answers 500 \<^verbatim>\<open>Internal Server Error\<close>, not a success, and the container is the one
  \<open>createOrder\<close> left: the new document is still its last element, with status
  \<^verbatim>\<open>pending\<close> and no \<^verbatim>\<open>stripeSessionId\<close>, and a fetch by owner and id returns it so.
\<close>

theorem failed_gateway_keeps_pending_order:
  assumes "cartItems b = Some cart" and "cart \<noteq> []" and "body_address b = Some addr"
    and "createOrder e c (checkout_order_data user_id cart addr b) = (Inr ord, c1)"
    and "sessions_create (session_request_for cart b ord) = Inl err"
    and "read_fault e' = None"
  shows "createCheckoutSession sessions_create e c user_id b
           = (Respond 500 (ErrorOnly ''Internal Server Error''), c1)
       \<and> (\<exists>doc. c1 = c @ [doc] \<and> order_id doc = order_id ord
             \<and> status doc = ''pending'' \<and> stripeSessionId doc = None
             \<and> getOrderById e' c1 user_id (order_id ord) = Respond 200 (OrderJson (fromDocument e' doc))
             \<and> status (fromDocument e' doc) = ''pending''
             \<and> stripeSessionId (fromDocument e' doc) = None)"
proof -
  from createOrder_for_checkout [OF assms(4)] obtain doc where
    d: "c1 = c @ [doc]" "\<not> list_ex (same_item (generateId e) (Some user_id)) c"
      "order_id doc = generateId e" "userId doc = Some user_id"
      "status doc = ''pending''" "stripeSessionId doc = None" "ord = fromDocument e doc"
    by blast
  have i: "order_id ord = generateId e"
    using d(3,7) by (simp add: fromDocument_fields generateId_nonempty)
  have "find (same_item (generateId e) (Some user_id)) (c @ [doc]) = Some doc"
    by (rule find_snoc [OF d(2)]) (simp add: same_item_def d)
  then have g: "getOrderById e' c1 user_id (order_id ord) = Respond 200 (OrderJson (fromDocument e' doc))"
    by (simp add: getOrderById_def item_read_def assms(6) d(1) i)
  have r: "createCheckoutSession sessions_create e c user_id b
      = (Respond 500 (ErrorOnly ''Internal Server Error''), c1)"
    by (simp add: createCheckoutSession_def assms)
  from r g d i show ?thesis
    by (intro conjI exI [of _ doc]) (simp_all add: fromDocument_status fromDocument_fields)
qed

theorem failed_gateway_keeps_pending_order_witness:
  "cartItems basket = Some [mug, plate] \<and> [mug, plate] \<noteq> [] \<and> body_address basket = Some home
   \<and> createOrder quiet [] (checkout_order_data ''u1'' [mug, plate] home basket) = (Inr placed, [placed])
   \<and> (\<lambda>r. Inl (StripeError ''timeout'')) (session_request_for [mug, plate] basket placed)
       = Inl (StripeError ''timeout'')
   \<and> read_fault quiet = None
   \<and> createCheckoutSession (\<lambda>r. Inl (StripeError ''timeout'')) quiet [] ''u1'' basket
       = (Respond 500 (ErrorOnly ''Internal Server Error''), [placed])
   \<and> status placed = ''pending'' \<and> stripeSessionId placed = None
   \<and> getOrderById quiet [placed] ''u1'' ''order_1700000000000_k3j9x0q1z''
       = Respond 200 (OrderJson (fromDocument quiet placed))"
proof -
  have h: "cartItems basket = Some [mug, plate]" "[mug, plate] \<noteq> []" "body_address basket = Some home"
    by (simp_all add: basket_def)
  have g: "(\<lambda>r. Inl (StripeError ''timeout'')) (session_request_for [mug, plate] basket placed)
       = Inl (StripeError ''timeout'')"
    by simp
  have q: "read_fault quiet = None" by (simp add: quiet_def)
  have p: "order_id placed = ''order_1700000000000_k3j9x0q1z''" by (simp add: placed_def)
  from failed_gateway_keeps_pending_order [OF h basket_order g q] h basket_order q p
  show ?thesis by auto
qed

section \<open>Listings\<close>

lemma newest_first_order_by: "newest_first (order_by_createdAt_desc docs)"
proof -
  have "sorted (map createdAt (sort_key createdAt docs))" by (rule sorted_sort_key)
  then have "sorted_wrt (\<lambda>a b. createdAt a \<le> createdAt b) (sort_key createdAt docs)"
    by (simp add: sorted_wrt_map)
  then show ?thesis
    by (simp add: newest_first_def order_by_createdAt_desc_def sorted_wrt_rev)
qed

lemma distinct_ids_order_by:
  "distinct (map order_id docs) \<Longrightarrow> distinct (map order_id (order_by_createdAt_desc docs))"
  by (simp add: order_by_createdAt_desc_def distinct_map rev_map [symmetric])

lemma listing_ok:
  "query_fault e = None \<Longrightarrow> 0 < p \<Longrightarrow> 0 < l \<Longrightarrow>
   listing e c matches (Some p) (Some l) =
     Respond 200
       (OrdersJson
          (map (fromDocument e)
             (take (nat l) (drop (nat ((p - 1) * l)) (order_by_createdAt_desc (filter matches c)))))
          p l
          (length (take (nat l) (drop (nat ((p - 1) * l)) (order_by_createdAt_desc (filter matches c)))))
          (total_pages
             (length (take (nat l) (drop (nat ((p - 1) * l)) (order_by_createdAt_desc (filter matches c)))))
             l))"
  by (simp add: listing_def query_page_def Let_def mult_less_0_iff)

lemma total_pages_10: "total_pages 10 10 = Some 1"
  by (simp add: total_pages_def)

lemma two_pages:
  assumes "query_fault e = None"
    and "length (filter matches c) = 25"
    and "distinct (map order_id c)" and "[] \<notin> set (map order_id c)"
  shows "\<exists>page1 page2.
           listing e c matches (Some 1) (Some 10) = Respond 200 (OrdersJson page1 1 10 10 (Some 1))
         \<and> listing e c matches (Some 2) (Some 10) = Respond 200 (OrdersJson page2 2 10 10 (Some 1))
         \<and> page2 = map (fromDocument e)
                      (take 10 (drop 10 (order_by_createdAt_desc (filter matches c))))
         \<and> length page2 = 10 \<and> distinct (page1 @ page2) \<and> newest_first (page1 @ page2)"
proof -
  let ?S = "order_by_createdAt_desc (filter matches c)"
  have len: "length ?S = 25"
    using assms(2) by (simp add: order_by_createdAt_desc_def)
  have sub: "set ?S \<subseteq> set c"
    by (auto simp: order_by_createdAt_desc_def)
  have "distinct (map order_id (filter matches c))"
    using assms(3) by (rule distinct_map_filter)
  then have dk: "distinct (map order_id ?S)" by (rule distinct_ids_order_by)
  have ids: "order_id x \<noteq> []" if "x \<in> set ?S" for x
  proof
    assume "order_id x = []"
    moreover from that sub have "x \<in> set c" by blast
    ultimately have "[] \<in> set (map order_id c)" by force
    with assms(4) show False by simp
  qed
  have both: "take 10 ?S @ take 10 (drop 10 ?S) = take 20 ?S"
    using take_add [of 10 10 ?S] by simp
  have "map (order_id \<circ> fromDocument e) (take 20 ?S) = map order_id (take 20 ?S)"
    using ids by (auto simp: fromDocument_fields dest: in_set_takeD)
  moreover have "distinct (map order_id (take 20 ?S))"
    using dk by (simp add: take_map [symmetric])
  ultimately have "distinct (map order_id (map (fromDocument e) (take 20 ?S)))"
    by (simp only: map_map)
  then have dist: "distinct (map (fromDocument e) (take 20 ?S))"
    using distinct_map [of order_id "map (fromDocument e) (take 20 ?S)"] by blast
  have "newest_first (take 20 ?S)"
    using newest_first_order_by [of "filter matches c"]
    by (simp add: newest_first_def sorted_wrt_take)
  then have srt: "newest_first (map (fromDocument e) (take 20 ?S))"
    by (simp add: newest_first_def sorted_wrt_map createdAt_fromDocument)
  have p1: "listing e c matches (Some 1) (Some 10)
      = Respond 200 (OrdersJson (map (fromDocument e) (take 10 ?S)) 1 10 10 (Some 1))"
    using listing_ok [OF assms(1), of 1 10 c matches] len by (simp add: total_pages_10)
  have p2: "listing e c matches (Some 2) (Some 10)
      = Respond 200 (OrdersJson (map (fromDocument e) (take 10 (drop 10 ?S))) 2 10 10 (Some 1))"
    using listing_ok [OF assms(1), of 2 10 c matches] len by (simp add: total_pages_10)
  have cat: "map (fromDocument e) (take 10 ?S) @ map (fromDocument e) (take 10 (drop 10 ?S))
      = map (fromDocument e) (take 20 ?S)"
    using both by (simp add: map_append [symmetric] del: map_append)
  show ?thesis
    using p1 p2 len dist srt cat
    by (intro exI [of _ "map (fromDocument e) (take 10 ?S)"]
        exI [of _ "map (fromDocument e) (take 10 (drop 10 ?S))"]) simp
qed

lemma twenty_five_user: "length (filter (user_filter ''u1'' None None) twenty_five) = 25"
  by (simp add: twenty_five_def user_filter_def stored_def)

lemma twenty_five_admin: "length (filter (admin_filter None None) twenty_five) = 25"
  by (simp add: twenty_five_def admin_filter_def)

lemma twenty_five_distinct: "distinct (map order_id twenty_five)"
proof -
  have "inj_on (\<lambda>n. order_id (stored (''order_'' @ replicate n CHR ''x'') ''u1'' ''pending'' n)) {0..<25}"
    by (rule inj_onI) (simp add: stored_def)
  then show ?thesis
    by (simp add: twenty_five_def distinct_map comp_def)
qed

lemma twenty_five_ids: "[] \<notin> set (map order_id twenty_five)"
  by (auto simp: twenty_five_def stored_def)

text \<open>
  C9. Let the ids in the container be distinct and non-empty and let the query
  succeed. If 25 documents match the filters of the owner's listing (or of the
  administrative listing), then the call with page 2 and limit 10 returns exactly 10
  orders: those at offset \<open>(2 - 1) * 10\<close> of the matching documents ordered by
  \<^verbatim>\<open>createdAt\<close> descending. Page 1 followed by page 2 has no order twice and runs from
  the newest to the oldest.
\<close>

theorem second_page_of_twenty_five:
  assumes "query_fault e = None" and "distinct (map order_id c)" and "[] \<notin> set (map order_id c)"
  shows "(length (filter (user_filter user_id st search) c) = 25 \<longrightarrow>
           (\<exists>page1 page2.
              getOrders e c user_id (Some 1) (Some 10) st search
                = Respond 200 (OrdersJson page1 1 10 10 (Some 1))
            \<and> getOrders e c user_id (Some 2) (Some 10) st search
                = Respond 200 (OrdersJson page2 2 10 10 (Some 1))
            \<and> page2 = map (fromDocument e)
                 (take 10 (drop ((2 - 1) * 10)
                    (order_by_createdAt_desc (filter (user_filter user_id st search) c))))
            \<and> length page2 = 10 \<and> distinct (page1 @ page2) \<and> newest_first (page1 @ page2)))
       \<and> (length (filter (admin_filter st search) c) = 25 \<longrightarrow>
           (\<exists>page1 page2.
              getAllOrders e c (Some 1) (Some 10) st search
                = Respond 200 (OrdersJson page1 1 10 10 (Some 1))
            \<and> getAllOrders e c (Some 2) (Some 10) st search
                = Respond 200 (OrdersJson page2 2 10 10 (Some 1))
            \<and> page2 = map (fromDocument e)
                 (take 10 (drop ((2 - 1) * 10)
                    (order_by_createdAt_desc (filter (admin_filter st search) c))))
            \<and> length page2 = 10 \<and> distinct (page1 @ page2) \<and> newest_first (page1 @ page2)))"
proof (intro conjI impI)
  assume "length (filter (user_filter user_id st search) c) = 25"
  from two_pages [OF assms(1) this assms(2,3)]
  show "\<exists>page1 page2.
              getOrders e c user_id (Some 1) (Some 10) st search
                = Respond 200 (OrdersJson page1 1 10 10 (Some 1))
            \<and> getOrders e c user_id (Some 2) (Some 10) st search
                = Respond 200 (OrdersJson page2 2 10 10 (Some 1))
            \<and> page2 = map (fromDocument e)
                 (take 10 (drop ((2 - 1) * 10)
                    (order_by_createdAt_desc (filter (user_filter user_id st search) c))))
            \<and> length page2 = 10 \<and> distinct (page1 @ page2) \<and> newest_first (page1 @ page2)"
    by (simp add: getOrders_def)
next
  assume "length (filter (admin_filter st search) c) = 25"
  from two_pages [OF assms(1) this assms(2,3)]
  show "\<exists>page1 page2.
              getAllOrders e c (Some 1) (Some 10) st search
                = Respond 200 (OrdersJson page1 1 10 10 (Some 1))
            \<and> getAllOrders e c (Some 2) (Some 10) st search
                = Respond 200 (OrdersJson page2 2 10 10 (Some 1))
            \<and> page2 = map (fromDocument e)
                 (take 10 (drop ((2 - 1) * 10)
                    (order_by_createdAt_desc (filter (admin_filter st search) c))))
            \<and> length page2 = 10 \<and> distinct (page1 @ page2) \<and> newest_first (page1 @ page2)"
    by (simp add: getAllOrders_def)
qed

theorem second_page_of_twenty_five_witness:
  "query_fault quiet = None \<and> distinct (map order_id twenty_five)
   \<and> [] \<notin> set (map order_id twenty_five)
   \<and> length (filter (user_filter ''u1'' None None) twenty_five) = 25
   \<and> length (filter (admin_filter None None) twenty_five) = 25
   \<and> (\<exists>page1 page2.
        getOrders quiet twenty_five ''u1'' (Some 1) (Some 10) None None
          = Respond 200 (OrdersJson page1 1 10 10 (Some 1))
      \<and> getOrders quiet twenty_five ''u1'' (Some 2) (Some 10) None None
          = Respond 200 (OrdersJson page2 2 10 10 (Some 1))
      \<and> length page2 = 10 \<and> distinct (page1 @ page2) \<and> newest_first (page1 @ page2))
   \<and> (\<exists>page1 page2.
        getAllOrders quiet twenty_five (Some 1) (Some 10) None None
          = Respond 200 (OrdersJson page1 1 10 10 (Some 1))
      \<and> getAllOrders quiet twenty_five (Some 2) (Some 10) None None
          = Respond 200 (OrdersJson page2 2 10 10 (Some 1))
      \<and> length page2 = 10 \<and> distinct (page1 @ page2) \<and> newest_first (page1 @ page2))"
proof -
  have q: "query_fault quiet = None" by (simp add: quiet_def)
  from second_page_of_twenty_five [OF q twenty_five_distinct twenty_five_ids, of "''u1''" None None]
    twenty_five_user twenty_five_admin
  have "(\<exists>page1 page2.
        getOrders quiet twenty_five ''u1'' (Some 1) (Some 10) None None
          = Respond 200 (OrdersJson page1 1 10 10 (Some 1))
      \<and> getOrders quiet twenty_five ''u1'' (Some 2) (Some 10) None None
          = Respond 200 (OrdersJson page2 2 10 10 (Some 1))
      \<and> length page2 = 10 \<and> distinct (page1 @ page2) \<and> newest_first (page1 @ page2))"
    and "(\<exists>page1 page2.
        getAllOrders quiet twenty_five (Some 1) (Some 10) None None
          = Respond 200 (OrdersJson page1 1 10 10 (Some 1))
      \<and> getAllOrders quiet twenty_five (Some 2) (Some 10) None None
          = Respond 200 (OrdersJson page2 2 10 10 (Some 1))
      \<and> length page2 = 10 \<and> distinct (page1 @ page2) \<and> newest_first (page1 @ page2))"
    by blast+
  with q twenty_five_distinct twenty_five_ids twenty_five_user twenty_five_admin
  show ?thesis by blast
qed

end
